theory Spec2Isabelle
  imports Complex_Main
begin

section \<open>Numbers, errors and measurement tuples\<close>

text \<open>
  The source computes on JavaScript numbers. They are embedded as the reals: \<open>Math.sin\<close>,
  \<open>Math.sinh\<close>, \<open>Math.asin\<close>, \<open>Math.acos\<close>, \<open>Math.asinh\<close>, \<open>Math.acosh\<close>,
  \<open>Math.tanh\<close>, \<open>Math.log\<close> and \<open>Math.sqrt\<close> become \<^const>\<open>sin\<close>, \<^const>\<open>sinh\<close>,
  \<^const>\<open>arcsin\<close>, \<^const>\<open>arccos\<close>, \<^const>\<open>arsinh\<close>, \<^const>\<open>arcosh\<close>, \<^const>\<open>tanh\<close>,
  \<^const>\<open>ln\<close> and \<^const>\<open>sqrt\<close>. Rounding, NaN and the infinities are not represented:
  every statement below that depends on a computed value keeps its arguments inside the
  domain of the operations involved, and the statements about control flow (which branch
  is taken, which error is thrown, how many canvas calls are issued) do not depend on the
  values at all. A thrown \<open>Error(msg)\<close> is the value \<open>Error msg\<close>; reading a property of
  \<open>undefined\<close> is \<open>TypeError\<close>.
\<close>

datatype error = Error string | TypeError

type_synonym measurements = "real \<times> real \<times> real \<times> real \<times> real \<times> real"

section \<open>The hyperbolic trigonometry module\<close>

text \<open>\<open>hyperbolicPythagorean(chx, chy, chc)\<close>; nothing in its body throws.\<close>

definition hyperbolicPythagorean :: "real \<Rightarrow> real \<Rightarrow> real \<Rightarrow> real \<times> real \<times> real" where
  "hyperbolicPythagorean chx chy chc =
     (if chx \<noteq> 0 \<and> chy \<noteq> 0 then (chx, chy, arcosh (cosh chy * cosh chx))
      else if chx \<noteq> 0 \<and> chc \<noteq> 0 then (chx, arcosh (cosh chc / cosh chx), chc)
      else if chy \<noteq> 0 \<and> chc \<noteq> 0 then (arcosh (cosh chc / cosh chy), chy, chc)
      else (chx, chy, chc))"

text \<open>
  One of the three blocks of \<open>updateBySineRule\<close> that treat an angle \<open>sX\<close> and its
  opposite side \<open>sx\<close> with the ratio basis \<open>G = sin\<close>, \<open>g = sinh\<close> of the complete pair:
  the side is filled from the angle, or the angle from the side under the domain guard,
  which throws \<open>Error("Error")\<close>.
\<close>

definition sineRulePair :: "real \<Rightarrow> real \<Rightarrow> real \<Rightarrow> real \<Rightarrow> error + (real \<times> real)" where
  "sineRulePair G g sX sx =
     (if sX \<noteq> 0 \<and> sx = 0 then Inr (sX, arsinh (sin sX * g / G))
      else if sx \<noteq> 0 \<and> sX = 0 then
        (if sinh sx * G / g > -1 \<and> sinh sx * G / g < 1
         then Inr (arcsin (sinh sx * G / g), sx)
         else Inl (Error ''Error''))
      else Inr (sX, sx))"

text \<open>
  \<open>updateBySineRule(sA, sa, sB, sb, sC, sc)\<close>: the basis is taken from the first complete
  pair in the order A, B, C; then the pairs B, C, A are treated in this order. The
  \<open>catch\<close> block rethrows.
\<close>

definition updateBySineRule ::
  "real \<Rightarrow> real \<Rightarrow> real \<Rightarrow> real \<Rightarrow> real \<Rightarrow> real \<Rightarrow> error + measurements" where
  "updateBySineRule sA sa sB sb sC sc =
     (if sA \<noteq> 0 \<or> sa \<noteq> 0 \<or> sB \<noteq> 0 \<or> sb \<noteq> 0 \<or> sC \<noteq> 0 \<or> sc \<noteq> 0 then
        (let (G, g) =
           (if sa \<noteq> 0 \<and> sA \<noteq> 0 then (sin sA, sinh sa)
            else if sb \<noteq> 0 \<and> sB \<noteq> 0 then (sin sB, sinh sb)
            else if sc \<noteq> 0 \<and> sC \<noteq> 0 then (sin sC, sinh sc)
            else (0, 0))
         in if G \<noteq> 0 \<and> g \<noteq> 0 then
              (case sineRulePair G g sB sb of
                 Inl e \<Rightarrow> Inl e
               | Inr (sB', sb') \<Rightarrow>
                  (case sineRulePair G g sC sc of
                     Inl e \<Rightarrow> Inl e
                   | Inr (sC', sc') \<Rightarrow>
                      (case sineRulePair G g sA sa of
                         Inl e \<Rightarrow> Inl e
                       | Inr (sA', sa') \<Rightarrow> Inr (sA', sa', sB', sb', sC', sc'))))
            else Inr (sA, sa, sB, sb, sC, sc))
      else Inr (sA, sa, sB, sb, sC, sc))"

text \<open>\<open>updateByFirstCosineRule(A, a, b, c)\<close>; no guard, nothing throws.\<close>

definition updateByFirstCosineRule ::
  "real \<Rightarrow> real \<Rightarrow> real \<Rightarrow> real \<Rightarrow> real \<times> real \<times> real \<times> real" where
  "updateByFirstCosineRule A a b c =
     (if a \<noteq> 0 \<and> A = 0 then
        (arccos ((cosh b * cosh c - cosh a) / (sinh b * sinh c)), a, b, c)
      else if a = 0 \<and> A \<noteq> 0 then
        (A, arcosh (cosh b * cosh c - sinh b * sinh c * cos A), b, c)
      else (A, a, b, c))"

text \<open>\<open>updateBySecondCosineRule(a, A, B, C)\<close>; the guard on \<open>cosA\<close> throws.\<close>

definition updateBySecondCosineRule ::
  "real \<Rightarrow> real \<Rightarrow> real \<Rightarrow> real \<Rightarrow> error + (real \<times> real \<times> real \<times> real)" where
  "updateBySecondCosineRule a A B C =
     (if a \<noteq> 0 \<and> A = 0 then
        (let cosA = - cos B * cos C + sin B * sin C * cosh a
         in if cosA > -1 \<and> cosA < 1 then Inr (a, arccos cosA, B, C)
            else Inl (Error ''Error''))
      else if a = 0 \<and> A \<noteq> 0 \<and> C \<noteq> 0 \<and> B \<noteq> 0 then
        Inr (arcosh ((cos B * cos C + cos A) / (sin B * sin C)), A, B, C)
      else Inr (a, A, B, C))"

text \<open>\<open>calculateMaximumAngleAndSide(A, a, b, c)\<close>; the guard on the product throws.\<close>

definition calculateMaximumAngleAndSide ::
  "real \<Rightarrow> real \<Rightarrow> real \<Rightarrow> real \<Rightarrow> error + (real \<times> real \<times> real \<times> real)" where
  "calculateMaximumAngleAndSide A a b c =
     (let tanhProduct = tanh (b / 2) * tanh (c / 2)
      in if tanhProduct > -1 \<and> tanhProduct < 1 then
           Inr (arccos tanhProduct,
                2 * arsinh (sqrt ((sinh (b / 2))\<^sup>2 + (sinh (c / 2))\<^sup>2)), b, c)
         else Inl (Error ''Error''))"

definition degrees2Radians :: "real \<Rightarrow> real" where
  "degrees2Radians x = x * pi / 180"

definition radians2Degrees :: "real \<Rightarrow> real" where
  "radians2Degrees x = 180 * x / pi"

text \<open>\<open>calculatePoincareAndGyrovectorRadius(r, rg)\<close>, returning the pair \<open>[r, rg]\<close>.\<close>

definition calculatePoincareAndGyrovectorRadius :: "real \<Rightarrow> real \<Rightarrow> real \<times> real" where
  "calculatePoincareAndGyrovectorRadius r rg =
     (if r \<noteq> 0 \<and> rg = 0 then (r, ln ((1 + r) / (1 - r)))
      else if rg \<noteq> 0 \<and> r = 0 then (tanh (rg / 2), rg)
      else (r, rg))"

text \<open>
  The known-mask of \<open>completeTriangle\<close>: \<open>[A, a, B, b, C, c].map(val => val !== 0 ? 1 : 0)\<close>.
\<close>

type_synonym mask = "bool \<times> bool \<times> bool \<times> bool \<times> bool \<times> bool"

definition knownMask :: "measurements \<Rightarrow> mask" where
  "knownMask t = (case t of (A, a, B, b, C, c) \<Rightarrow>
     (A \<noteq> 0, a \<noteq> 0, B \<noteq> 0, b \<noteq> 0, C \<noteq> 0, c \<noteq> 0))"

definition sineRule :: "measurements \<Rightarrow> error + measurements" where
  "sineRule t = (case t of (A, a, B, b, C, c) \<Rightarrow> updateBySineRule A a B b C c)"

text \<open>
  The three right-angle lines of \<open>completeTriangle\<close>, each assigning \<open>[a, b, c]\<close> from
  the triple that \<open>hyperbolicPythagorean\<close> returns:
  \<^verbatim>\<open>if (A === degrees2Radians(90)) [a, b, c] = hyperbolicPythagorean(c, b, a);\<close>
  \<^verbatim>\<open>if (B === degrees2Radians(90)) [a, b, c] = hyperbolicPythagorean(c, a, b);\<close>
  \<^verbatim>\<open>if (C === degrees2Radians(90)) [a, b, c] = hyperbolicPythagorean(a, b, c);\<close>
\<close>

definition rightAngleStep :: "measurements \<Rightarrow> measurements" where
  "rightAngleStep t = (case t of (A, a, B, b, C, c) \<Rightarrow>
     (let (a, b, c) = (if A = degrees2Radians 90 then hyperbolicPythagorean c b a else (a, b, c));
          (a, b, c) = (if B = degrees2Radians 90 then hyperbolicPythagorean c a b else (a, b, c));
          (a, b, c) = (if C = degrees2Radians 90 then hyperbolicPythagorean a b c else (a, b, c))
      in (A, a, B, b, C, c)))"

text \<open>
  The six-way \<open>if / else if\<close> chain that applies one cosine rule, selected by the mask
  taken before the right-angle lines.
\<close>

definition cosineRuleStep :: "mask \<Rightarrow> measurements \<Rightarrow> error + measurements" where
  "cosineRuleStep m t = (case m of (A1, a1, B1, b1, C1, c1) \<Rightarrow> (case t of (A, a, B, b, C, c) \<Rightarrow>
     (if A1 \<and> c1 \<and> B1 then
        (case updateBySecondCosineRule c C B A of
           Inl e \<Rightarrow> Inl e | Inr (c, C, B, A) \<Rightarrow> Inr (A, a, B, b, C, c))
      else if A1 \<and> b1 \<and> C1 then
        (case updateBySecondCosineRule b B A C of
           Inl e \<Rightarrow> Inl e | Inr (b, B, A, C) \<Rightarrow> Inr (A, a, B, b, C, c))
      else if B1 \<and> a1 \<and> C1 then
        (case updateBySecondCosineRule a A B C of
           Inl e \<Rightarrow> Inl e | Inr (a, A, B, C) \<Rightarrow> Inr (A, a, B, b, C, c))
      else if C1 \<and> a1 \<and> b1 then
        (case updateByFirstCosineRule C c b a of (C, c, b, a) \<Rightarrow> Inr (A, a, B, b, C, c))
      else if A1 \<and> c1 \<and> b1 then
        (case updateByFirstCosineRule A a b c of (A, a, b, c) \<Rightarrow> Inr (A, a, B, b, C, c))
      else if B1 \<and> a1 \<and> c1 then
        (case updateByFirstCosineRule B b a c of (B, b, a, c) \<Rightarrow> Inr (A, a, B, b, C, c))
      else Inr (A, a, B, b, C, c))))"

text \<open>\<open>if (a1 && b1 && c1) { ... }\<close>: three angles from three sides.\<close>

definition allSidesStep :: "mask \<Rightarrow> measurements \<Rightarrow> measurements" where
  "allSidesStep m t = (case m of (A1, a1, B1, b1, C1, c1) \<Rightarrow> (case t of (A, a, B, b, C, c) \<Rightarrow>
     (if a1 \<and> b1 \<and> c1 then
        (let (B, b, a, c) = updateByFirstCosineRule B b a c;
             (A, a, b, c) = updateByFirstCosineRule A a b c;
             (C, c, b, a) = updateByFirstCosineRule C c b a
         in (A, a, B, b, C, c))
      else (A, a, B, b, C, c))))"

text \<open>\<open>if (A1 && B1 && C1 && !a1 && !b1 && !c1) { ... }\<close>: three sides from three angles.\<close>

definition allAnglesStep :: "mask \<Rightarrow> measurements \<Rightarrow> error + measurements" where
  "allAnglesStep m t = (case m of (A1, a1, B1, b1, C1, c1) \<Rightarrow> (case t of (A, a, B, b, C, c) \<Rightarrow>
     (if A1 \<and> B1 \<and> C1 \<and> \<not> a1 \<and> \<not> b1 \<and> \<not> c1 then
        (case updateBySecondCosineRule a A B C of
           Inl e \<Rightarrow> Inl e
         | Inr (a, A, B, C) \<Rightarrow>
            (case updateBySecondCosineRule c C B A of
               Inl e \<Rightarrow> Inl e
             | Inr (c, C, B, A) \<Rightarrow>
                (case updateBySecondCosineRule b B A C of
                   Inl e \<Rightarrow> Inl e
                 | Inr (b, B, A, C) \<Rightarrow> Inr (A, a, B, b, C, c))))
      else Inr (A, a, B, b, C, c))))"

text \<open>The three lines that call \<open>calculateMaximumAngleAndSide\<close>, under one mask.\<close>

definition maxAngleStep :: "mask \<Rightarrow> measurements \<Rightarrow> error + measurements" where
  "maxAngleStep m t = (case m of (A1, a1, B1, b1, C1, c1) \<Rightarrow> (case t of (A, a, B, b, C, c) \<Rightarrow>
     (case (if a1 \<and> b1 \<and> \<not> (a1 \<and> b1 \<and> C1) \<and> \<not> A1 \<and> \<not> C1 \<and> \<not> B1
            then (case calculateMaximumAngleAndSide C c b a of
                    Inl e \<Rightarrow> Inl e | Inr (C, c, b, a) \<Rightarrow> Inr (A, a, B, b, C, c))
            else Inr (A, a, B, b, C, c)) of
        Inl e \<Rightarrow> Inl e
      | Inr (A, a, B, b, C, c) \<Rightarrow>
         (case (if a1 \<and> c1 \<and> \<not> (a1 \<and> c1 \<and> B1) \<and> \<not> A1 \<and> \<not> C1 \<and> \<not> B1
                then (case calculateMaximumAngleAndSide B b a c of
                        Inl e \<Rightarrow> Inl e | Inr (B, b, a, c) \<Rightarrow> Inr (A, a, B, b, C, c))
                else Inr (A, a, B, b, C, c)) of
            Inl e \<Rightarrow> Inl e
          | Inr (A, a, B, b, C, c) \<Rightarrow>
             (if c1 \<and> b1 \<and> \<not> (c1 \<and> b1 \<and> A1) \<and> \<not> A1 \<and> \<not> C1 \<and> \<not> B1
              then (case calculateMaximumAngleAndSide A a b c of
                      Inl e \<Rightarrow> Inl e | Inr (A, a, b, c) \<Rightarrow> Inr (A, a, B, b, C, c))
              else Inr (A, a, B, b, C, c))))))"

text \<open>
  \<open>completeTriangle(A, a, B, b, C, c)\<close>. Its \<open>catch\<close> block logs and does not rethrow, so
  a throw of any solver makes the function return \<open>undefined\<close>: the value \<open>None\<close>.
  Otherwise it returns the object \<open>{A, a, B, b, C, c}\<close>.
\<close>

definition completeTriangle ::
  "real \<Rightarrow> real \<Rightarrow> real \<Rightarrow> real \<Rightarrow> real \<Rightarrow> real \<Rightarrow> measurements option" where
  "completeTriangle A a B b C c =
     (case updateBySineRule A a B b C c of
        Inl e \<Rightarrow> None
      | Inr t1 \<Rightarrow>
         (case cosineRuleStep (knownMask t1) (rightAngleStep t1) of
            Inl e \<Rightarrow> None
          | Inr t3 \<Rightarrow>
             (case sineRule (allSidesStep (knownMask t3) t3) of
                Inl e \<Rightarrow> None
              | Inr t5 \<Rightarrow>
                 (case allAnglesStep (knownMask t3) t5 of
                    Inl e \<Rightarrow> None
                  | Inr t6 \<Rightarrow>
                     (case maxAngleStep (knownMask t6) t6 of
                        Inl e \<Rightarrow> None
                      | Inr t7 \<Rightarrow>
                         (case sineRule t7 of
                            Inl e \<Rightarrow> None
                          | Inr t8 \<Rightarrow> Some t8))))))"

section \<open>The drawing module\<close>

text \<open>
  The 2-D context is the list of the calls issued on it so far; \<open>ctx\<close> is \<open>None\<close> when
  \<open>getContext\<close> returned \<open>null\<close>. A method returns the drawer after the calls it issued,
  with the error it threw, if any: calls issued before a throw stay on the canvas.
\<close>

datatype canvas_call =
    BeginPath
  | MoveTo real real
  | LineTo real real
  | Arc real real real real real
  | Stroke

record HyperbolicDrawler =
  ctx :: "canvas_call list option"
  X :: real
  Y :: real
  R :: real

type_synonym outcome = "error option \<times> HyperbolicDrawler"

definition issue :: "canvas_call list \<Rightarrow> HyperbolicDrawler \<Rightarrow> HyperbolicDrawler" where
  "issue cs d = d\<lparr>ctx := map_option (\<lambda>calls. calls @ cs) (ctx d)\<rparr>"

text \<open>Sequencing of two statements: the second runs unless the first threw.\<close>

definition andThen :: "outcome \<Rightarrow> (HyperbolicDrawler \<Rightarrow> outcome) \<Rightarrow> outcome" where
  "andThen r f = (case r of (None, d) \<Rightarrow> f d | (Some e, d) \<Rightarrow> (Some e, d))"

text \<open>
  \<open>for (let i = 1; i <= x; i++) body\<close>: the values of \<open>i\<close> are \<open>1, 2, ...\<close> up to the
  integral part of \<open>x\<close>, and the loop stops at the first throw.
\<close>

definition loopIndices :: "real \<Rightarrow> real list" where
  "loopIndices x = map real [1 ..< Suc (nat \<lfloor>x\<rfloor>)]"

fun forEach ::
  "real list \<Rightarrow> (real \<Rightarrow> HyperbolicDrawler \<Rightarrow> outcome) \<Rightarrow> HyperbolicDrawler \<Rightarrow> outcome" where
  "forEach [] body d = (None, d)"
| "forEach (i # rest) body d =
     (case body i d of (None, d') \<Rightarrow> forEach rest body d' | (Some e, d') \<Rightarrow> (Some e, d'))"

text \<open>\<open>Math.atan2(y, x)\<close> on finite arguments.\<close>

definition atan2 :: "real \<Rightarrow> real \<Rightarrow> real" where
  "atan2 y x =
     (if x > 0 then arctan (y / x)
      else if x < 0 \<and> y \<ge> 0 then arctan (y / x) + pi
      else if x < 0 \<and> y < 0 then arctan (y / x) - pi
      else if y > 0 then pi / 2
      else if y < 0 then - pi / 2
      else 0)"

text \<open>The remainder \<open>x % y\<close> of JavaScript: the quotient is truncated towards zero.\<close>

definition jsRemainder :: "real \<Rightarrow> real \<Rightarrow> real" where
  "jsRemainder x y = x - y * of_int (if x / y < 0 then \<lceil>x / y\<rceil> else \<lfloor>x / y\<rfloor>)"

definition drawCurvature ::
  "HyperbolicDrawler \<Rightarrow> real \<Rightarrow> real \<Rightarrow> real \<Rightarrow> real \<Rightarrow> real \<Rightarrow> real \<Rightarrow> outcome" where
  "drawCurvature d A B C One aung bung =
     (if ctx d = None then (Some (Error ''Canvas context not initialized''), d)
      else if cos (pi - (A + B + C)) \<noteq> 1 then
        (let r_kriv = sqrt (((sin C * bung * R d)\<^sup>2 + (bung * R d * cos C - aung * R d)\<^sup>2) /
                            (2 * (1 - cos (pi - A - B - C))));
             centerX = X d + r_kriv * cos B * cos One + (aung * R d + r_kriv * sin B) * sin One;
             centerY = Y d + (aung * R d + r_kriv * sin B) * cos One - r_kriv * cos B * sin One;
             startX = X d + aung * R d * sin One;
             startY = Y d + aung * R d * cos One;
             endX = X d + sin (One + C) * bung * R d;
             endY = Y d + bung * R d * cos (C + One);
             startAngle = atan2 (startY - centerY) (startX - centerX);
             endAngle = atan2 (endY - centerY) (endX - centerX)
         in (None, issue [BeginPath, Arc centerX centerY r_kriv startAngle endAngle, Stroke] d))
      else
        (let startX = X d + R d * cos (One + pi / 2);
             startY = Y d - R d * sin (One + pi / 2);
             endX = X d + R d * cos (One + 1.5 * pi);
             endY = Y d - R d * sin (One + 1.5 * pi)
         in (None, issue [BeginPath, MoveTo startX startY, LineTo endX endY, Stroke] d)))"

definition createTrangle ::
  "HyperbolicDrawler \<Rightarrow> real \<Rightarrow> real \<Rightarrow> real \<Rightarrow> real \<Rightarrow> real \<Rightarrow> real \<Rightarrow> real \<Rightarrow> outcome" where
  "createTrangle d A a B b C c One =
     (if ctx d = None then (Some (Error ''Canvas context not initialized''), d)
      else
        (let aung = fst (calculatePoincareAndGyrovectorRadius 0 a);
             d1 = issue [BeginPath, MoveTo (X d) (Y d),
                         LineTo (X d + aung * R d * sin One) (Y d + aung * R d * cos One),
                         Stroke] d;
             bung = fst (calculatePoincareAndGyrovectorRadius 0 b);
             d2 = issue [BeginPath, MoveTo (X d) (Y d),
                         LineTo (X d + sin (One + C) * bung * R d) (Y d + bung * R d * cos (C + One)),
                         Stroke] d1
         in drawCurvature d2 A B C One aung bung))"

text \<open>
  The checks of \<open>handleTriangleDrawing\<close> that precede the call of \<open>completeTriangle\<close>, on
  the angles already converted to radians; \<open>None\<close> when none of them throws.
\<close>

definition triangleInputCheck ::
  "real \<Rightarrow> real \<Rightarrow> real \<Rightarrow> real \<Rightarrow> real \<Rightarrow> real \<Rightarrow> error option" where
  "triangleInputCheck A a B b C c =
     (let validInputs = length (filter (\<lambda>val. val \<noteq> 0) [A, B, C, a, b, c])
      in if validInputs < 2 \<or> validInputs > 3 then
           Some (Error (if validInputs > 3 then ''Too many inputs'' else ''Insufficient data''))
         else if (c \<ge> a + b \<or> a \<ge> c + b \<or> b \<ge> a + c) \<and> a \<noteq> 0 \<and> b \<noteq> 0 \<and> c \<noteq> 0 then
           Some (Error ''Invalid triangle'')
         else if (A = pi \<or> B = pi \<or> C = pi) \<and> A \<noteq> 0 \<and> B \<noteq> 0 \<and> C \<noteq> 0 then
           Some (Error ''Invalid triangle'')
         else if A + B + C \<ge> pi \<and> A \<noteq> 0 \<and> B \<noteq> 0 \<and> C \<noteq> 0 then
           Some (Error ''Invalid triangle'')
         else if A < 0 \<or> B < 0 \<or> C < 0 then
           Some (Error ''Invalid triangle'')
         else None)"

definition handleTriangleDrawing ::
  "HyperbolicDrawler \<Rightarrow> real \<Rightarrow> real \<Rightarrow> real \<Rightarrow> real \<Rightarrow> real \<Rightarrow> real \<Rightarrow> real \<Rightarrow> outcome" where
  "handleTriangleDrawing d A a B b C c One =
     (let A = degrees2Radians A;
          B = degrees2Radians B;
          C = degrees2Radians C;
          One = degrees2Radians One
      in case triangleInputCheck A a B b C c of
           Some e \<Rightarrow> (Some e, d)
         | None \<Rightarrow>
            (case completeTriangle A a B b C c of
               None \<Rightarrow> (Some TypeError, d)
             | Some (A, a, B, b, C, c) \<Rightarrow>
                (if (A \<noteq> 0 \<and> B \<noteq> 0 \<and> C = 0 \<and> a \<noteq> 0 \<and> b \<noteq> 0 \<and> c = 0) \<or>
                    (A \<noteq> 0 \<and> C \<noteq> 0 \<and> B = 0 \<and> a \<noteq> 0 \<and> b = 0 \<and> c \<noteq> 0) \<or>
                    (A = 0 \<and> B \<noteq> 0 \<and> C \<noteq> 0 \<and> a = 0 \<and> b \<noteq> 0 \<and> c \<noteq> 0)
                 then (Some (Error ''Insufficient data''), d)
                 else if c \<ge> a + b \<or> a \<ge> c + b \<or> b \<ge> a + c
                 then (Some (Error ''Invalid triangle''), d)
                 else createTrangle d A a B b C c (One + pi / 2))))"


definition createHyperbolicLine :: "HyperbolicDrawler \<Rightarrow> real \<Rightarrow> real \<Rightarrow> outcome" where
  "createHyperbolicLine d a1 a2 =
     (let aung = 0.999 in
      if ctx d = None then (Some (Error ''Canvas context not initialized''), d)
      else if a1 > 360 \<or> a2 > 360 then
        (Some (Error ''Angles must be less than or equal to 360 degrees''), d)
      else if a1 = a2 then (Some (Error ''Enter different angles''), d)
      else
        (let a1 = (if a2 - a1 > pi then 2 * pi + a1 else a1);
             a2 = (if a1 - a2 > pi then 2 * pi + a2 else a2);
             C = (if a2 > a1 then a2 - a1 else a1 - a2)
         in if \<bar>a1 - a2\<bar> = pi then
              (None, issue [BeginPath,
                            MoveTo (X d + R d * cos a1) (Y d - R d * sin a1),
                            LineTo (X d + R d * cos a2) (Y d - R d * sin a2),
                            Stroke] d)
            else
              (let a = snd (calculatePoincareAndGyrovectorRadius aung 0);
                   c = (case updateByFirstCosineRule C a a a of (_, _, _, c) \<Rightarrow> c)
               in case updateBySineRule 0 aung 0 aung C c of
                    Inl e \<Rightarrow> (Some e, d)
                  | Inr (A, _, B, _) \<Rightarrow>
                     drawCurvature d A B C ((a1 + a2) / 2 + pi / 2 - C / 2) aung aung)))"

definition createParallels :: "HyperbolicDrawler \<Rightarrow> real \<Rightarrow> real \<Rightarrow> outcome" where
  "createParallels d k a1 =
     (let g = 2 * pi / (k + 1) in
      if a1 > 360 then (Some (Error ''Angle must be less than or equal to 360 degrees''), d)
      else if k = 0 then (Some (Error ''Enter the number of lines''), d)
      else if jsRemainder k 2 = 1 then
        andThen (forEach (loopIndices ((k - 1) / 2))
                   (\<lambda>i d. createHyperbolicLine d a1 (a1 + i * g)) d)
          (\<lambda>d. andThen (createHyperbolicLine d a1 (a1 + degrees2Radians 179))
            (\<lambda>d. forEach (loopIndices ((k - 1) / 2))
                   (\<lambda>i d. createHyperbolicLine d a1 (a1 - i * g)) d))
      else
        andThen (forEach (loopIndices (k / 2))
                   (\<lambda>i d. createHyperbolicLine d a1 (a1 + i * g)) d)
          (\<lambda>d. forEach (loopIndices (k / 2))
                   (\<lambda>i d. createHyperbolicLine d a1 (a1 - i * g)) d))"

definition handleCircleDrawing :: "HyperbolicDrawler \<Rightarrow> real \<Rightarrow> real \<Rightarrow> outcome" where
  "handleCircleDrawing d R1 RG =
     (if ctx d = None then (Some (Error ''Canvas context not initialized''), d)
      else if (R1 \<noteq> 0 \<and> RG \<noteq> 0) \<or> (R1 = 0 \<and> RG = 0) then
        (Some (Error ''Enter only one parameter''), d)
      else if R1 < 1 then
        (case calculatePoincareAndGyrovectorRadius R1 RG of (R1, RG) \<Rightarrow>
           if RG > 35 then (Some (Error ''Radius is too large''), d)
           else (None, issue [BeginPath, Arc (X d) (Y d) (R1 * R d) 0 (2 * pi), Stroke] d))
      else (Some (Error ''Poincare radius must be less than 1''), d))"

text \<open>The number of \<open>stroke()\<close> calls on the context: one per drawn line or arc.\<close>

definition strokes :: "HyperbolicDrawler \<Rightarrow> nat" where
  "strokes d = (case ctx d of None \<Rightarrow> 0 | Some calls \<Rightarrow> length (filter (\<lambda>k. k = Stroke) calls))"

text \<open>
  A call that starts on the drawer \<open>d\<close> with a context and ends in the outcome \<open>r\<close> has
  drawn one line or arc when it did not throw and issued exactly one more \<open>stroke()\<close>.
\<close>

definition drawsOne :: "HyperbolicDrawler \<Rightarrow> outcome \<Rightarrow> bool" where
  "drawsOne d r = (fst r = None \<and> ctx (snd r) \<noteq> None \<and> strokes (snd r) = strokes d + 1)"

section \<open>Valid triangles and their determining subsets\<close>

text \<open>
  The claims speak of a valid hyperbolic triangle and of the subsets of its measurements
  that determine it. A 6-tuple \<open>(A, a, B, b, C, c)\<close> is the measurement set of a
  hyperbolic triangle (curvature \<open>-1\<close>) when its sides are positive, its angles lie
  strictly between \<open>0\<close> and \<open>pi\<close>, and each side obeys the hyperbolic law of cosines with
  the opposite angle. The angle sum below \<open>pi\<close>, the triangle inequality, the law of
  sines and the second law of cosines are consequences, proved further down.
\<close>

definition validTriangle :: "measurements \<Rightarrow> bool" where
  "validTriangle t = (case t of (A, a, B, b, C, c) \<Rightarrow>
     0 < a \<and> 0 < b \<and> 0 < c \<and> 0 < A \<and> A < pi \<and> 0 < B \<and> B < pi \<and> 0 < C \<and> C < pi
   \<and> cosh a = cosh b * cosh c - sinh b * sinh c * cos A
   \<and> cosh b = cosh a * cosh c - sinh a * sinh c * cos B
   \<and> cosh c = cosh a * cosh b - sinh a * sinh b * cos C)"







section \<open>The rule solvers keep what is known\<close>

lemma sineRulePair_keeps:
  assumes "sineRulePair G g sX sx = Inr (sX', sx')"
  shows "(sX \<noteq> 0 \<longrightarrow> sX' = sX) \<and> (sx \<noteq> 0 \<longrightarrow> sx' = sx)"
  using assms by (auto simp: sineRulePair_def split: if_splits)

lemma updateBySineRule_keeps:
  assumes "updateBySineRule sA sa sB sb sC sc = Inr (sA', sa', sB', sb', sC', sc')"
  shows "(sA \<noteq> 0 \<longrightarrow> sA' = sA) \<and> (sa \<noteq> 0 \<longrightarrow> sa' = sa) \<and> (sB \<noteq> 0 \<longrightarrow> sB' = sB)
       \<and> (sb \<noteq> 0 \<longrightarrow> sb' = sb) \<and> (sC \<noteq> 0 \<longrightarrow> sC' = sC) \<and> (sc \<noteq> 0 \<longrightarrow> sc' = sc)"
proof (cases "updateBySineRule sA sa sB sb sC sc = Inr (sA, sa, sB, sb, sC, sc)")
  case True
  with assms show ?thesis by simp
next
  case False
  then obtain G g where
      pB: "sineRulePair G g sB sb = Inr (sB', sb')"
  and pC: "sineRulePair G g sC sc = Inr (sC', sc')"
  and pA: "sineRulePair G g sA sa = Inr (sA', sa')"
    using assms
    by (auto simp: updateBySineRule_def Let_def split: if_splits sum.splits prod.splits)
  from sineRulePair_keeps[OF pA] sineRulePair_keeps[OF pB] sineRulePair_keeps[OF pC]
  show ?thesis by simp
qed

lemma updateByFirstCosineRule_keeps:
  assumes "updateByFirstCosineRule A a b c = (A', a', b', c')"
  shows "(A \<noteq> 0 \<longrightarrow> A' = A) \<and> (a \<noteq> 0 \<longrightarrow> a' = a) \<and> b' = b \<and> c' = c"
  using assms by (auto simp: updateByFirstCosineRule_def split: if_splits)

lemma updateBySecondCosineRule_keeps:
  assumes "updateBySecondCosineRule a A B C = Inr (a', A', B', C')"
  shows "(a \<noteq> 0 \<longrightarrow> a' = a) \<and> (A \<noteq> 0 \<longrightarrow> A' = A) \<and> B' = B \<and> C' = C"
  using assms by (auto simp: updateBySecondCosineRule_def Let_def split: if_splits)


text \<open>
  Claim C10. The three rule solvers never overwrite a known value: whenever
  \<open>updateBySineRule\<close>, \<open>updateByFirstCosineRule\<close> or \<open>updateBySecondCosineRule\<close> returns
  (the first and the third may throw instead), every slot that was nonzero on entry has
  the value it had on entry; only slots that were zero on entry can differ.
\<close>

theorem solvers_keep_known_slots:
  "(updateBySineRule sA sa sB sb sC sc = Inr (sA', sa', sB', sb', sC', sc') \<longrightarrow>
      (sA \<noteq> 0 \<longrightarrow> sA' = sA) \<and> (sa \<noteq> 0 \<longrightarrow> sa' = sa) \<and> (sB \<noteq> 0 \<longrightarrow> sB' = sB) \<and>
      (sb \<noteq> 0 \<longrightarrow> sb' = sb) \<and> (sC \<noteq> 0 \<longrightarrow> sC' = sC) \<and> (sc \<noteq> 0 \<longrightarrow> sc' = sc)) \<and>
   (updateByFirstCosineRule A a b c = (A', a', b', c') \<longrightarrow>
      (A \<noteq> 0 \<longrightarrow> A' = A) \<and> (a \<noteq> 0 \<longrightarrow> a' = a) \<and> (b \<noteq> 0 \<longrightarrow> b' = b) \<and> (c \<noteq> 0 \<longrightarrow> c' = c)) \<and>
   (updateBySecondCosineRule x P Q S = Inr (x', P', Q', S') \<longrightarrow>
      (x \<noteq> 0 \<longrightarrow> x' = x) \<and> (P \<noteq> 0 \<longrightarrow> P' = P) \<and> (Q \<noteq> 0 \<longrightarrow> Q' = Q) \<and> (S \<noteq> 0 \<longrightarrow> S' = S))"
proof (intro conjI impI)
  assume "updateBySineRule sA sa sB sb sC sc = Inr (sA', sa', sB', sb', sC', sc')"
  note k = updateBySineRule_keeps[OF this]
  { assume "sA \<noteq> 0" with k show "sA' = sA" by simp }
  { assume "sa \<noteq> 0" with k show "sa' = sa" by simp }
  { assume "sB \<noteq> 0" with k show "sB' = sB" by simp }
  { assume "sb \<noteq> 0" with k show "sb' = sb" by simp }
  { assume "sC \<noteq> 0" with k show "sC' = sC" by simp }
  { assume "sc \<noteq> 0" with k show "sc' = sc" by simp }
next
  assume "updateByFirstCosineRule A a b c = (A', a', b', c')"
  note k = updateByFirstCosineRule_keeps[OF this]
  { assume "A \<noteq> 0" with k show "A' = A" by simp }
  { assume "a \<noteq> 0" with k show "a' = a" by simp }
  { assume "b \<noteq> 0" from k show "b' = b" by simp }
  { assume "c \<noteq> 0" from k show "c' = c" by simp }
next
  assume "updateBySecondCosineRule x P Q S = Inr (x', P', Q', S')"
  note k = updateBySecondCosineRule_keeps[OF this]
  { assume "x \<noteq> 0" with k show "x' = x" by simp }
  { assume "P \<noteq> 0" with k show "P' = P" by simp }
  { assume "Q \<noteq> 0" from k show "Q' = Q" by simp }
  { assume "S \<noteq> 0" from k show "S' = S" by simp }
qed

text \<open>
  On the input \<open>A = B = pi / 2\<close>, \<open>a = 1\<close> the sine rule fills the side \<open>b\<close>; the first
  cosine rule fills a side from an angle and two sides, the second a side from three
  angles; the slots known on entry come back as they were.
\<close>

theorem solvers_keep_known_slots_witness:
  "updateBySineRule (pi / 2) 1 (pi / 2) 0 0 0 = Inr (pi / 2, 1, pi / 2, 1, 0, 0) \<and>
   updateByFirstCosineRule (pi / 2) 0 1 1 = (pi / 2, arcosh (cosh 1 * cosh 1), 1, 1) \<and>
   updateBySecondCosineRule 0 (pi / 3) (pi / 3) (pi / 3) =
     Inr (arcosh ((cos (pi / 3) * cos (pi / 3) + cos (pi / 3)) / (sin (pi / 3) * sin (pi / 3))),
          pi / 3, pi / 3, pi / 3)"
proof -
  have s: "updateBySineRule (pi / 2) 1 (pi / 2) 0 0 0 = Inr (pi / 2, 1, pi / 2, 1, 0, 0)"
    by (simp add: updateBySineRule_def sineRulePair_def arsinh_sinh_real)
  have f: "updateByFirstCosineRule (pi / 2) 0 1 1 = (pi / 2, arcosh (cosh 1 * cosh 1), 1, 1)"
    by (simp add: updateByFirstCosineRule_def)
  have c: "updateBySecondCosineRule 0 (pi / 3) (pi / 3) (pi / 3) =
     Inr (arcosh ((cos (pi / 3) * cos (pi / 3) + cos (pi / 3)) / (sin (pi / 3) * sin (pi / 3))),
          pi / 3, pi / 3, pi / 3)"
    by (simp add: updateBySecondCosineRule_def)
  from s f c
    solvers_keep_known_slots[of "pi / 2" 1 "pi / 2" 0 0 0 "pi / 2" 1 "pi / 2" 1 0 0
      "pi / 2" 0 1 1 "pi / 2" "arcosh (cosh 1 * cosh 1)" 1 1
      0 "pi / 3" "pi / 3" "pi / 3"
      "arcosh ((cos (pi / 3) * cos (pi / 3) + cos (pi / 3)) / (sin (pi / 3) * sin (pi / 3)))"
      "pi / 3" "pi / 3" "pi / 3"]
  show ?thesis by simp
qed

section \<open>Radius conversion and circles\<close>

lemma radius_round_trip_aux:
  assumes "0 < r" "r < 1"
  shows "tanh (ln ((1 + r) / (1 - r)) / 2) = (r::real)"
proof -
  have pos: "0 < (1 + r) / (1 - r)" using assms by simp
  have e: "exp (- 2 * (ln ((1 + r) / (1 - r)) / 2)) = (1 - r) / (1 + r)"
    using pos by (simp add: exp_minus field_simps)
  have "tanh (ln ((1 + r) / (1 - r)) / 2) = (1 - (1 - r) / (1 + r)) / (1 + (1 - r) / (1 + r))"
    unfolding tanh_real_altdef e ..
  also have "\<dots> = r" using assms by (simp add: field_simps)
  finally show ?thesis .
qed

lemma ln_ratio_pos:
  assumes "0 < r" "r < 1"
  shows "0 < ln ((1 + r) / (1 - r :: real))"
  using assms by (simp add: field_simps)

lemma ln3_le: "ln (3::real) \<le> 35"
  using ln_le_minus_one[of "3::real"] by simp

section \<open>Polygons and pencils of parallels\<close>

lemma drawCurvature_drawsOne:
  assumes "ctx d \<noteq> None"
  shows "drawsOne d (drawCurvature d A B C One aung bung)"
proof -
  from assms obtain calls where "ctx d = Some calls" by auto
  then show ?thesis
    by (simp add: drawsOne_def drawCurvature_def Let_def strokes_def issue_def)
qed







lemma sine_ratio_bounded:
  assumes "0 < s" "s < c"
  shows "- 1 < sinh s * sin C / sinh c \<and> sinh s * sin C / sinh (c::real) < 1"
proof -
  have c: "0 < sinh c" and sc: "sinh s < sinh c" and s: "0 < sinh s" using assms by simp_all
  have "\<bar>sinh s * sin C\<bar> \<le> sinh s * 1"
    unfolding abs_mult using s by (intro mult_mono) simp_all
  with sc have "\<bar>sinh s * sin C\<bar> < sinh c" by linarith
  then have "- sinh c < sinh s * sin C" "sinh s * sin C < sinh c" by linarith+
  then show ?thesis using c by (simp add: less_divide_eq divide_less_eq)
qed

lemma sineRulePair_line:
  assumes "0 < s" "s < c" "sin C \<noteq> 0"
  shows "\<exists>v. sineRulePair (sin C) (sinh c) 0 s = Inr (v, s)"
  using sine_ratio_bounded[OF assms(1,2), of C] assms(1)
  by (simp add: sineRulePair_def)

lemma updateBySineRule_line:
  assumes "0 < s" "s < c"
  shows "\<exists>A' B'. updateBySineRule 0 s 0 s C c = Inr (A', s, B', s, C, c)"
proof (cases "C \<noteq> 0 \<and> sin C \<noteq> 0")
  case True
  then obtain v where v: "sineRulePair (sin C) (sinh c) 0 s = Inr (v, s)"
    using sineRulePair_line[OF assms] by blast
  have p: "sineRulePair (sin C) (sinh c) C c = Inr (C, c)"
    using True assms by (simp add: sineRulePair_def)
  show ?thesis using True v p assms
    by (simp add: updateBySineRule_def)
next
  case False
  then show ?thesis using assms by (auto simp: updateBySineRule_def)
qed

lemma gyrovector_of_aung: "(999 / 1000 :: real) < snd (calculatePoincareAndGyrovectorRadius (999 / 1000) 0)"
proof -
  have "exp (999 / 1000 :: real) \<le> exp 1" by simp
  also have "\<dots> \<le> 3" by (rule exp_le)
  finally have "exp (999 / 1000 :: real) < 1999" by simp
  then have "ln (exp (999 / 1000 :: real)) < ln 1999" by (subst ln_less_cancel_iff) simp_all
  then show ?thesis by (simp add: calculatePoincareAndGyrovectorRadius_def)
qed

lemma firstCosine_last: "(case updateByFirstCosineRule A a b c of (_, _, _, c') \<Rightarrow> c') = c"
  by (simp add: updateByFirstCosineRule_def)

lemma line_arc_drawsOne:
  assumes "ctx d \<noteq> None" "0 < s" "s < c"
  shows "drawsOne d (case updateBySineRule 0 s 0 s C c of
                       Inl e \<Rightarrow> (Some e, d)
                     | Inr (A, _, B, _) \<Rightarrow> drawCurvature d A B C' One aung bung)"
proof -
  obtain A' B' where "updateBySineRule 0 s 0 s C c = Inr (A', s, B', s, C, c)"
    using updateBySineRule_line[OF assms(2,3)] by blast
  then show ?thesis using drawCurvature_drawsOne[OF assms(1)] by simp
qed

lemma line_chord_drawsOne:
  assumes "ctx d \<noteq> None"
  shows "drawsOne d (None, issue [BeginPath, MoveTo x1 y1, LineTo x2 y2, Stroke] d)"
proof -
  from assms obtain calls where "ctx d = Some calls" by auto
  then show ?thesis by (simp add: drawsOne_def strokes_def issue_def)
qed

lemma createHyperbolicLine_drawsOne:
  assumes "ctx d \<noteq> None" "a1 \<le> 360" "a2 \<le> 360" "a1 \<noteq> a2"
  shows "drawsOne d (createHyperbolicLine d a1 a2)"
proof -
  note l = line_arc_drawsOne[OF assms(1) _ gyrovector_of_aung] line_chord_drawsOne[OF assms(1)]
  from assms(1) obtain calls where calls: "ctx d = Some calls" by auto
  show ?thesis
    unfolding createHyperbolicLine_def Let_def firstCosine_last
    using assms(2-4) calls by (simp add: l)
qed

lemma andThen_drawsOne:
  assumes "drawsOne d r"
  shows "andThen r f = f (snd r)"
  using assms by (cases r) (auto simp: andThen_def drawsOne_def)

lemma jsRemainder_4_2: "jsRemainder 4 2 = 0"
  by (simp add: jsRemainder_def)

lemma loopIndices_2: "loopIndices 2 = [1, 2]"
proof -
  have "[1 ..< Suc 2] = [1, 2]" by (simp add: upt_rec)
  then show ?thesis by (simp add: loopIndices_def)
qed

lemma createParallels_4_calls:
  "createParallels d 4 0 =
     andThen (createHyperbolicLine d 0 (2 * pi / 5))
       (\<lambda>d. andThen (createHyperbolicLine d 0 (2 * (2 * pi / 5)))
         (\<lambda>d. andThen (createHyperbolicLine d 0 (- (2 * pi / 5)))
           (\<lambda>d. createHyperbolicLine d 0 (- (2 * (2 * pi / 5))))))"
  apply (simp add: createParallels_def jsRemainder_4_2 loopIndices_2 Let_def andThen_def
         split: prod.splits option.splits)
  done

section \<open>Claims about circles, polygons and parallels\<close>

text \<open>
  Claim C8. For every Poincare radius \<open>r\<close> with \<open>0 < r < 1\<close>, converting it to the
  gyrovector radius (\<open>calculatePoincareAndGyrovectorRadius(r, 0)\<close>, which computes
  \<open>ln((1 + r) / (1 - r))\<close>) and converting that back
  (\<open>calculatePoincareAndGyrovectorRadius(0, rg)\<close>, which computes \<open>tanh(rg / 2)\<close>) returns
  \<open>r\<close>: exactly over the reals, hence within the tolerance \<open>1e-9\<close>.
\<close>

theorem radius_round_trip:
  assumes "0 < r" and "r < 1"
  shows "fst (calculatePoincareAndGyrovectorRadius 0
               (snd (calculatePoincareAndGyrovectorRadius r 0))) = r
       \<and> \<bar>fst (calculatePoincareAndGyrovectorRadius 0
               (snd (calculatePoincareAndGyrovectorRadius r 0))) - r\<bar> < 1 / 10 ^ 9"
  using assms ln_ratio_pos[OF assms] radius_round_trip_aux[OF assms]
  by (simp add: calculatePoincareAndGyrovectorRadius_def)

theorem radius_round_trip_witness:
  "fst (calculatePoincareAndGyrovectorRadius 0
               (snd (calculatePoincareAndGyrovectorRadius (1 / 2) 0))) = 1 / 2"
  using radius_round_trip[of "1 / 2"] by simp

text \<open>
  Claim C6. On a drawer with a context, \<open>handleCircleDrawing(0.5, 0)\<close> succeeds and issues
  one arc of radius \<open>0.5 * R\<close> around the disk centre \<open>(X, Y)\<close>;
  \<open>handleCircleDrawing(0.5, 0.5)\<close> throws "Enter only one parameter";
  \<open>handleCircleDrawing(1.0, 0)\<close> throws "Poincare radius must be less than 1"; and every
  gyrovector radius above 35 is rejected with "Radius is too large". A rejected call issues nothing.
\<close>

theorem handleCircleDrawing_cases:
  assumes "ctx d = Some calls"
  shows "handleCircleDrawing d 0.5 0 =
           (None, d\<lparr>ctx := Some (calls @ [BeginPath, Arc (X d) (Y d) (0.5 * R d) 0 (2 * pi), Stroke])\<rparr>)
       \<and> handleCircleDrawing d 0.5 0.5 = (Some (Error ''Enter only one parameter''), d)
       \<and> handleCircleDrawing d 1.0 0 = (Some (Error ''Poincare radius must be less than 1''), d)
       \<and> (\<forall>RG > 35. handleCircleDrawing d 0 RG = (Some (Error ''Radius is too large''), d))"
  using assms ln3_le
  by (simp add: handleCircleDrawing_def calculatePoincareAndGyrovectorRadius_def issue_def)

theorem handleCircleDrawing_cases_witness:
  "handleCircleDrawing \<lparr>ctx = Some [], X = 100, Y = 100, R = 95\<rparr> 0.5 0 =
     (None, \<lparr>ctx = Some [BeginPath, Arc 100 100 (0.5 * 95) 0 (2 * pi), Stroke],
             X = 100, Y = 100, R = 95\<rparr>)
   \<and> handleCircleDrawing \<lparr>ctx = Some [], X = 100, Y = 100, R = 95\<rparr> 0 36 =
     (Some (Error ''Radius is too large''), \<lparr>ctx = Some [], X = 100, Y = 100, R = 95\<rparr>)"
  using handleCircleDrawing_cases[of "\<lparr>ctx = Some [], X = 100, Y = 100, R = 95\<rparr>" "[]"]
  by simp



text \<open>
  Claim C9. \<open>createParallels(4, 0)\<close> takes the even branch: it is the sequence of the four
  calls \<open>createHyperbolicLine(0, g)\<close>, \<open>createHyperbolicLine(0, 2g)\<close>,
  \<open>createHyperbolicLine(0, -g)\<close>, \<open>createHyperbolicLine(0, -2g)\<close> with \<open>g = 2 pi / 5\<close>, and
  no call with the 179 degree offset. On a drawer with a context none of them throws and
  each issues one stroke, four in all.
\<close>

theorem createParallels_4_0:
  "createParallels d 4 0 =
     andThen (createHyperbolicLine d 0 (2 * pi / 5))
       (\<lambda>d. andThen (createHyperbolicLine d 0 (2 * (2 * pi / 5)))
         (\<lambda>d. andThen (createHyperbolicLine d 0 (- (2 * pi / 5)))
           (\<lambda>d. createHyperbolicLine d 0 (- (2 * (2 * pi / 5))))))
 \<and> (ctx d \<noteq> None \<longrightarrow>
      fst (createParallels d 4 0) = None
    \<and> strokes (snd (createParallels d 4 0)) = strokes d + 4)"
proof (intro conjI impI)
  show calls: "createParallels d 4 0 =
     andThen (createHyperbolicLine d 0 (2 * pi / 5))
       (\<lambda>d. andThen (createHyperbolicLine d 0 (2 * (2 * pi / 5)))
         (\<lambda>d. andThen (createHyperbolicLine d 0 (- (2 * pi / 5)))
           (\<lambda>d. createHyperbolicLine d 0 (- (2 * (2 * pi / 5))))))"
    by (rule createParallels_4_calls)
  assume c: "ctx d \<noteq> None"
  have le: "2 * pi / 5 \<le> 360" "2 * (2 * pi / 5) \<le> 360"
    "- (2 * pi / 5) \<le> 360" "- (2 * (2 * pi / 5)) \<le> 360"
    using pi_less_4 pi_gt_zero by linarith+
  define r1 where "r1 = createHyperbolicLine d 0 (2 * pi / 5)"
  define r2 where "r2 = createHyperbolicLine (snd r1) 0 (2 * (2 * pi / 5))"
  define r3 where "r3 = createHyperbolicLine (snd r2) 0 (- (2 * pi / 5))"
  define r4 where "r4 = createHyperbolicLine (snd r3) 0 (- (2 * (2 * pi / 5)))"
  have d1: "drawsOne d r1"
    unfolding r1_def using c le by (intro createHyperbolicLine_drawsOne) simp_all
  then have c1: "ctx (snd r1) \<noteq> None" by (simp add: drawsOne_def)
  have d2: "drawsOne (snd r1) r2"
    unfolding r2_def using c1 le by (intro createHyperbolicLine_drawsOne) simp_all
  then have c2: "ctx (snd r2) \<noteq> None" by (simp add: drawsOne_def)
  have d3: "drawsOne (snd r2) r3"
    unfolding r3_def using c2 le by (intro createHyperbolicLine_drawsOne) simp_all
  then have c3: "ctx (snd r3) \<noteq> None" by (simp add: drawsOne_def)
  have d4: "drawsOne (snd r3) r4"
    unfolding r4_def using c3 le by (intro createHyperbolicLine_drawsOne) simp_all
  have "createParallels d 4 0 = r4"
    by (simp only: calls r1_def[symmetric] andThen_drawsOne[OF d1] r2_def[symmetric]
          andThen_drawsOne[OF d2] r3_def[symmetric] andThen_drawsOne[OF d3] r4_def[symmetric])
  with d1 d2 d3 d4 show "fst (createParallels d 4 0) = None"
    and "strokes (snd (createParallels d 4 0)) = strokes d + 4"
    by (simp_all add: drawsOne_def)
qed

theorem createParallels_4_0_witness:
  "fst (createParallels \<lparr>ctx = Some [], X = 100, Y = 100, R = 95\<rparr> 4 0) = None
 \<and> strokes (snd (createParallels \<lparr>ctx = Some [], X = 100, Y = 100, R = 95\<rparr> 4 0)) = 4"
proof -
  have s0: "strokes \<lparr>ctx = Some [], X = 100, Y = 100, R = 95\<rparr> = 0"
    by (simp add: strokes_def)
  from createParallels_4_0[of "\<lparr>ctx = Some [], X = 100, Y = 100, R = 95\<rparr>", THEN conjunct2] s0
  show ?thesis by simp
qed

section \<open>Claims about the triangle entry point\<close>

lemma deg30: "degrees2Radians 30 = pi / 6" and deg0: "degrees2Radians 0 = 0"
  and deg90: "degrees2Radians 90 = pi / 2" and deg120: "degrees2Radians 120 = 2 * pi / 3"
  and deg180: "degrees2Radians 180 = pi"
  by (simp_all add: degrees2Radians_def)

lemma sine_aas_30: "updateBySineRule (pi / 6) 1 (pi / 6) 0 0 0 = Inr (pi / 6, 1, pi / 6, 1, 0, 0)"
  by (simp add: updateBySineRule_def sineRulePair_def arsinh_sinh_real sin_30)

lemma sine_aas_30': "updateBySineRule (pi / 6) 1 (pi / 6) 1 0 0 = Inr (pi / 6, 1, pi / 6, 1, 0, 0)"
  by (simp add: updateBySineRule_def sineRulePair_def sin_30)

lemma complete_aas_30:
  "completeTriangle (pi / 6) 1 (pi / 6) 0 0 0 = Some (pi / 6, 1, pi / 6, 1, 0, 0)"
  by (simp add: completeTriangle_def sine_aas_30 sine_aas_30' knownMask_def rightAngleStep_def
        deg90 cosineRuleStep_def allSidesStep_def sineRule_def allAnglesStep_def maxAngleStep_def)

lemma check_aas_30: "triangleInputCheck (pi / 6) 1 (pi / 6) 0 0 0 = None"
  by (simp add: triangleInputCheck_def)

text \<open>
  Claim C3. Whenever the input of \<open>handleTriangleDrawing\<close> passes the checks before
  completion and \<open>completeTriangle\<close> returns a tuple in which exactly two angles and their
  two opposite sides are nonzero while the third angle and its opposite side are both
  zero, the call throws "Insufficient data" and issues no canvas call: the drawer comes
  back unchanged.
\<close>

theorem insufficient_data_after_completion:
  assumes "triangleInputCheck (degrees2Radians A) a (degrees2Radians B) b (degrees2Radians C) c = None"
      and "completeTriangle (degrees2Radians A) a (degrees2Radians B) b (degrees2Radians C) c
             = Some (A', a', B', b', C', c')"
      and "(A' \<noteq> 0 \<and> a' \<noteq> 0 \<and> B' \<noteq> 0 \<and> b' \<noteq> 0 \<and> C' = 0 \<and> c' = 0)
         \<or> (A' \<noteq> 0 \<and> a' \<noteq> 0 \<and> C' \<noteq> 0 \<and> c' \<noteq> 0 \<and> B' = 0 \<and> b' = 0)
         \<or> (B' \<noteq> 0 \<and> b' \<noteq> 0 \<and> C' \<noteq> 0 \<and> c' \<noteq> 0 \<and> A' = 0 \<and> a' = 0)"
  shows "handleTriangleDrawing d A a B b C c One = (Some (Error ''Insufficient data''), d)"
  using assms by (auto simp: handleTriangleDrawing_def Let_def)

text \<open>
  Two angles of 30 degrees and the side \<open>a = 1\<close>: the sine rule fills \<open>b\<close>, nothing fills
  \<open>C\<close> and \<open>c\<close>.
\<close>

theorem insufficient_data_after_completion_witness:
  "handleTriangleDrawing \<lparr>ctx = Some [], X = 100, Y = 100, R = 95\<rparr> 30 1 30 0 0 0 0
     = (Some (Error ''Insufficient data''), \<lparr>ctx = Some [], X = 100, Y = 100, R = 95\<rparr>)"
  by (rule insufficient_data_after_completion[where A' = "pi / 6" and a' = 1 and B' = "pi / 6"
        and b' = 1 and C' = 0 and c' = 0])
     (simp_all add: deg30 deg0 check_aas_30 complete_aas_30)

lemma sin_120_pos: "0 < sin (2 * pi / 3)"
  by (rule sin_gt_zero) (use pi_gt_zero in simp_all)

lemma sine_aas_120: "updateBySineRule (2 * pi / 3) 1 (2 * pi / 3) 0 0 0
    = Inr (2 * pi / 3, 1, 2 * pi / 3, 1, 0, 0)"
  using sin_120_pos
  by (simp add: updateBySineRule_def sineRulePair_def arsinh_sinh_real)

lemma sine_aas_120': "updateBySineRule (2 * pi / 3) 1 (2 * pi / 3) 1 0 0
    = Inr (2 * pi / 3, 1, 2 * pi / 3, 1, 0, 0)"
  using sin_120_pos
  by (simp add: updateBySineRule_def sineRulePair_def)

lemma complete_aas_120:
  "completeTriangle (2 * pi / 3) 1 (2 * pi / 3) 0 0 0 = Some (2 * pi / 3, 1, 2 * pi / 3, 1, 0, 0)"
  by (simp add: completeTriangle_def sine_aas_120 sine_aas_120' knownMask_def rightAngleStep_def
        deg90 cosineRuleStep_def allSidesStep_def sineRule_def allAnglesStep_def maxAngleStep_def)

text \<open>
  Claim C5 as stated fails. Two known angles of 120 degrees sum to more than \<open>pi\<close>, yet
  the checks before completion pass (the angle-sum check is gated by all three angles
  being known), completion runs, and the call ends with "Insufficient data", not
  "Invalid triangle". Likewise a single known angle equal to \<open>pi\<close> passes the checks.
\<close>

theorem prevalidation_counterexample:
  "degrees2Radians 120 + degrees2Radians 120 \<ge> pi
 \<and> triangleInputCheck (degrees2Radians 120) 1 (degrees2Radians 120) 0 (degrees2Radians 0) 0 = None
 \<and> handleTriangleDrawing \<lparr>ctx = Some [], X = 100, Y = 100, R = 95\<rparr> 120 1 120 0 0 0 0
     = (Some (Error ''Insufficient data''), \<lparr>ctx = Some [], X = 100, Y = 100, R = 95\<rparr>)
 \<and> triangleInputCheck (degrees2Radians 180) 1 (degrees2Radians 0) 0 (degrees2Radians 0) 0 = None"
  by (simp add: handleTriangleDrawing_def deg120 deg0 deg180 complete_aas_120 triangleInputCheck_def)

text \<open>
  Claim C5, amended. For every input with two or three known scalars: if some angle is
  negative, or all three angles are known and one of them equals \<open>pi\<close> or they sum to at
  least \<open>pi\<close>, then the checks before completion throw "Invalid triangle", so the call
  fails with it before \<open>completeTriangle\<close> is called and issues no canvas call.
\<close>

theorem prevalidation_rejects:
  assumes "length (filter (\<lambda>val. val \<noteq> 0)
             [degrees2Radians A, degrees2Radians B, degrees2Radians C, a, b, c]) \<in> {2, 3}"
      and "degrees2Radians A < 0 \<or> degrees2Radians B < 0 \<or> degrees2Radians C < 0
         \<or> (degrees2Radians A \<noteq> 0 \<and> degrees2Radians B \<noteq> 0 \<and> degrees2Radians C \<noteq> 0
            \<and> (degrees2Radians A = pi \<or> degrees2Radians B = pi \<or> degrees2Radians C = pi
               \<or> degrees2Radians A + degrees2Radians B + degrees2Radians C \<ge> pi))"
  shows "triangleInputCheck (degrees2Radians A) a (degrees2Radians B) b (degrees2Radians C) c
           = Some (Error ''Invalid triangle'')
       \<and> handleTriangleDrawing d A a B b C c One = (Some (Error ''Invalid triangle''), d)"
proof -
  define n where "n = length (filter (\<lambda>val. val \<noteq> 0)
             [degrees2Radians A, degrees2Radians B, degrees2Radians C, a, b, c])"
  have n: "\<not> (n < 2 \<or> n > 3)" using assms(1) unfolding n_def[symmetric] by auto
  have "0 < pi" by simp
  have "triangleInputCheck (degrees2Radians A) a (degrees2Radians B) b (degrees2Radians C) c
           = Some (Error ''Invalid triangle'')"
    unfolding triangleInputCheck_def Let_def n_def[symmetric]
    using assms(2) n \<open>0 < pi\<close> by (simp only: if_False) (auto; linarith)
  then show ?thesis by (simp add: handleTriangleDrawing_def Let_def)
qed

theorem prevalidation_rejects_witness:
  "handleTriangleDrawing \<lparr>ctx = Some [], X = 100, Y = 100, R = 95\<rparr> 100 0 50 0 40 0 0
     = (Some (Error ''Invalid triangle''), \<lparr>ctx = Some [], X = 100, Y = 100, R = 95\<rparr>)
 \<and> handleTriangleDrawing \<lparr>ctx = Some [], X = 100, Y = 100, R = 95\<rparr> (- 10) 1 0 0 0 0 0
     = (Some (Error ''Invalid triangle''), \<lparr>ctx = Some [], X = 100, Y = 100, R = 95\<rparr>)"
proof -
  have 1: "length (filter (\<lambda>val. val \<noteq> 0)
             [degrees2Radians 100, degrees2Radians 50, degrees2Radians 40, 0, 0, 0]) \<in> {2, 3}"
    by (simp add: degrees2Radians_def)
  have 2: "degrees2Radians 100 \<noteq> 0 \<and> degrees2Radians 50 \<noteq> 0 \<and> degrees2Radians 40 \<noteq> 0
     \<and> degrees2Radians 100 + degrees2Radians 50 + degrees2Radians 40 \<ge> pi"
    by (simp add: degrees2Radians_def)
  have 3: "length (filter (\<lambda>val. val \<noteq> 0)
             [degrees2Radians (- 10), degrees2Radians 0, degrees2Radians 0, 1, 0, 0]) \<in> {2, 3}"
    by (simp add: degrees2Radians_def)
  have 4: "degrees2Radians (- 10) < 0"
    by (simp add: degrees2Radians_def)
  from prevalidation_rejects[of 100 50 40 0 0 0, OF 1] 2
       prevalidation_rejects[of "- 10" 0 0 1 0 0, OF 3] 4
  show ?thesis by simp
qed

text \<open>The sine rule's guard at a right angle \<open>A\<close> with \<open>a = 1\<close> and \<open>b = 2\<close>.\<close>

lemma sine_guard_triggers: "updateBySineRule (pi / 2) 1 0 2 0 0 = Inl (Error ''Error'')"
proof -
  have "sinh (1::real) \<le> sinh 2" by simp
  then have "\<not> sinh 2 / sinh (1::real) < 1" by (simp add: divide_less_eq)
  then show ?thesis by (simp add: updateBySineRule_def sineRulePair_def)
qed

text \<open>
  Claim C2 does not hold of the code. With a right angle \<open>A\<close>, \<open>a = 1\<close> and \<open>b = 2\<close> the
  sine rule's guard triggers (\<open>sinh 2 * sin A / sinh 1 \<ge> 1\<close>) and \<open>updateBySineRule\<close>
  throws. \<open>completeTriangle\<close> catches the error, logs and returns \<open>undefined\<close>; its
  caller \<open>handleTriangleDrawing\<close> then fails on \<open>result.A\<close> with a \<open>TypeError\<close>, not with the
  solver's error.
\<close>

theorem completeTriangle_swallows_guard_error:
  "completeTriangle (pi / 2) 1 0 2 0 0 = None
 \<and> handleTriangleDrawing \<lparr>ctx = Some [], X = 100, Y = 100, R = 95\<rparr> 90 1 0 2 0 0 0
     = (Some TypeError, \<lparr>ctx = Some [], X = 100, Y = 100, R = 95\<rparr>)"
proof -
  have c: "completeTriangle (pi / 2) 1 0 2 0 0 = None"
    by (simp add: completeTriangle_def sine_guard_triggers)
  have t: "triangleInputCheck (pi / 2) 1 0 2 0 0 = None"
    by (simp add: triangleInputCheck_def)
  show ?thesis using c t by (simp add: handleTriangleDrawing_def deg90 deg0)
qed

section \<open>Laws of hyperbolic trigonometry for valid triangles\<close>

lemma gram_square:
  fixes x y z q r cA sA :: real
  assumes "q\<^sup>2 = y\<^sup>2 - 1" "r\<^sup>2 = z\<^sup>2 - 1" "x = y * z - q * r * cA" "sA\<^sup>2 = 1 - cA\<^sup>2"
  shows "(sA * q * r)\<^sup>2 = 1 - x\<^sup>2 - y\<^sup>2 - z\<^sup>2 + 2 * x * y * z"
proof -
  have e: "q * r * cA = y * z - x" using assms(3) by simp
  have "(sA * q * r)\<^sup>2 = sA\<^sup>2 * q\<^sup>2 * r\<^sup>2" by (simp add: power_mult_distrib)
  also have "\<dots> = q\<^sup>2 * r\<^sup>2 - (q * r * cA)\<^sup>2"
    unfolding assms(4) by (simp add: power_mult_distrib algebra_simps)
  also have "\<dots> = (y\<^sup>2 - 1) * (z\<^sup>2 - 1) - (y * z - x)\<^sup>2"
    unfolding e assms(1,2) ..
  also have "\<dots> = 1 - x\<^sup>2 - y\<^sup>2 - z\<^sup>2 + 2 * x * y * z"
    by (simp add: power2_eq_square algebra_simps)
  finally show ?thesis .
qed

lemma hyperbolic_laws_core:
  fixes x y z p q r cA cB cC sA sB sC :: real
  assumes sq: "p\<^sup>2 = x\<^sup>2 - 1" "q\<^sup>2 = y\<^sup>2 - 1" "r\<^sup>2 = z\<^sup>2 - 1"
      and pos: "0 < p" "0 < q" "0 < r"
      and cosA: "x = y * z - q * r * cA"
      and cosB: "y = x * z - p * r * cB"
      and cosC: "z = x * y - p * q * cC"
      and s: "sA\<^sup>2 = 1 - cA\<^sup>2" "sB\<^sup>2 = 1 - cB\<^sup>2" "sC\<^sup>2 = 1 - cC\<^sup>2"
      and spos: "0 < sA" "0 < sB" "0 < sC"
  shows "sA * q = sB * p" and "sA * r = sC * p" and "sB * r = sC * q"
    and "cA = - cB * cC + sB * sC * x"
proof -
  define D where "D = 1 - x\<^sup>2 - y\<^sup>2 - z\<^sup>2 + 2 * x * y * z"
  have dA: "(sA * q * r)\<^sup>2 = D"
    unfolding D_def by (rule gram_square[OF sq(2) sq(3) cosA s(1)])
  have dB: "(sB * p * r)\<^sup>2 = D"
    using gram_square[OF sq(1) sq(3) cosB s(2)] unfolding D_def by (simp add: algebra_simps)
  have dC: "(sC * p * q)\<^sup>2 = D"
    using gram_square[OF sq(1) sq(2) cosC s(3)] unfolding D_def by (simp add: algebra_simps)
  have nA: "0 \<le> sA * q * r" and nB: "0 \<le> sB * p * r" and nC: "0 \<le> sC * p * q"
    using pos spos by simp_all
  have AB: "sA * q * r = sB * p * r"
    using dA dB nA nB by (metis power2_eq_imp_eq)
  have AC: "sA * q * r = sC * p * q"
    using dA dC nA nC by (metis power2_eq_imp_eq)
  have BC: "sB * p * r = sC * p * q" unfolding AB[symmetric] by (rule AC)
  show 1: "sA * q = sB * p" using AB pos by simp
  show 2: "sA * r = sC * p"
  proof -
    have "(sA * r) * q = (sC * p) * q" using AC by (simp add: ac_simps)
    then show ?thesis using pos by simp
  qed
  show 3: "sB * r = sC * q"
  proof -
    have "(sB * r) * p = (sC * q) * p" using BC by (simp add: ac_simps)
    then show ?thesis using pos by simp
  qed
  have prod: "(sB * p * r) * (sC * p * q) = D"
    unfolding BC[symmetric] dB[symmetric] by (simp only: power2_eq_square)
  have eA: "q * r * cA = y * z - x" using cosA by simp
  have eB: "p * r * cB = x * z - y" using cosB by simp
  have eC: "p * q * cC = x * y - z" using cosC by simp
  have "(p\<^sup>2 * q * r) * (- cB * cC + sB * sC * x)
          = - (p * r * cB) * (p * q * cC) + ((sB * p * r) * (sC * p * q)) * x"
    by (simp add: power2_eq_square algebra_simps)
  also have "\<dots> = - (x * z - y) * (x * y - z) + D * x"
    unfolding eB eC prod ..
  also have "\<dots> = (x\<^sup>2 - 1) * (y * z - x)"
    unfolding D_def by (simp add: power2_eq_square algebra_simps)
  also have "\<dots> = (p\<^sup>2 * q * r) * cA"
    unfolding sq(1)[symmetric] eA[symmetric] by (simp add: algebra_simps)
  finally have "(p\<^sup>2 * q * r) * (- cB * cC + sB * sC * x) = (p\<^sup>2 * q * r) * cA" .
  moreover have "p\<^sup>2 * q * r \<noteq> 0" using pos by simp
  ultimately show "cA = - cB * cC + sB * sC * x" by simp
qed


lemma validTriangleD:
  assumes "validTriangle (A, a, B, b, C, c)"
  shows "0 < a" "0 < b" "0 < c" "0 < A" "A < pi" "0 < B" "B < pi" "0 < C" "C < pi"
    and "cosh a = cosh b * cosh c - sinh b * sinh c * cos A"
    and "cosh b = cosh a * cosh c - sinh a * sinh c * cos B"
    and "cosh c = cosh a * cosh b - sinh a * sinh b * cos C"
  using assms unfolding validTriangle_def prod.case by blast+

lemma validTriangleI:
  assumes "0 < a" "0 < b" "0 < c" "0 < A" "A < pi" "0 < B" "B < pi" "0 < C" "C < pi"
    and "cosh a = cosh b * cosh c - sinh b * sinh c * cos A"
    and "cosh b = cosh a * cosh c - sinh a * sinh c * cos B"
    and "cosh c = cosh a * cosh b - sinh a * sinh b * cos C"
  shows "validTriangle (A, a, B, b, C, c)"
  using assms unfolding validTriangle_def prod.case by blast

lemma valid_second_cosine_A:
  assumes "validTriangle (A, a, B, b, C, c)"
  shows "cos A = - cos B * cos C + sin B * sin C * cosh a"
    and "sin A * sinh b = sin B * sinh a"
    and "sin A * sinh c = sin C * sinh a"
    and "sin B * sinh c = sin C * sinh b"
proof -
  note v = validTriangleD[OF assms]
  have pos: "0 < sinh a" "0 < sinh b" "0 < sinh c" using v(1-3) by simp_all
  have spos: "0 < sin A" "0 < sin B" "0 < sin C" using v(4-9) by (simp_all add: sin_gt_zero)
  note c1 = v(10) and c2 = v(11) and c3 = v(12)
  note core = hyperbolic_laws_core[OF sinh_square_eq sinh_square_eq sinh_square_eq pos c1 c2 c3
      sin_squared_eq sin_squared_eq sin_squared_eq spos]
  show "cos A = - cos B * cos C + sin B * sin C * cosh a" by (rule core(4))
  show "sin A * sinh b = sin B * sinh a" by (rule core(1))
  show "sin A * sinh c = sin C * sinh a" by (rule core(2))
  show "sin B * sinh c = sin C * sinh b" by (rule core(3))
qed

lemma valid_rotate:
  assumes "validTriangle (A, a, B, b, C, c)"
  shows "validTriangle (B, b, C, c, A, a)"
proof -
  note v = validTriangleD[OF assms]
  have 1: "cosh b = cosh c * cosh a - sinh c * sinh a * cos B"
    using v(11) by (simp only: mult.commute)
  have 2: "cosh c = cosh b * cosh a - sinh b * sinh a * cos C"
    using v(12) by (simp only: mult.commute)
  show ?thesis
    by (rule validTriangleI[OF v(2) v(3) v(1) v(6) v(7) v(8) v(9) v(4) v(5) 1 2 v(10)])
qed

lemma valid_second_cosine_B:
  assumes "validTriangle (A, a, B, b, C, c)"
  shows "cos B = - cos C * cos A + sin C * sin A * cosh b"
  by (rule valid_second_cosine_A(1)[OF valid_rotate[OF assms]])




lemma valid_triangle_inequality:
  assumes "validTriangle (A, a, B, b, C, c)"
  shows "c < a + b"
proof -
  note v = validTriangleD[OF assms]
  note r = v(8,9) and s = v(1-3) and c3 = v(12)
  have "- 1 < cos C" using r cos_monotone_0_pi[of C pi] by simp
  then have "sinh a * sinh b * (- 1) < sinh a * sinh b * cos C"
    using s by (intro mult_strict_left_mono) simp_all
  then have "cosh c < cosh (a + b)" using c3 by (simp add: cosh_add)
  then show ?thesis using s by (simp add: cosh_real_nonneg_less_iff)
qed

section \<open>Completion on the measurements of a valid triangle\<close>














lemma pi_half_nz: "(0::real) \<noteq> pi / 2"
  by simp



text \<open>
  What the right-angle line for \<open>A\<close> does when the two legs \<open>b\<close> and \<open>c\<close> are known:
  \<open>hyperbolicPythagorean(c, b, a)\<close> returns \<open>[c, b, hypotenuse]\<close>, which is assigned to
  \<open>[a, b, c]\<close>, so the leg \<open>c\<close> lands in slot \<open>a\<close> and the hypotenuse in slot \<open>c\<close>. The
  line for \<open>C\<close> has the arguments in the order of the assignment. This is why
  \<open>rightAngleFree\<close> excludes a given right angle \<open>A\<close> or \<open>B\<close> next to known sides.
\<close>

lemma rightAngleStep_moves_sides:
  assumes "b \<noteq> 0" "c \<noteq> 0"
  shows "rightAngleStep (pi / 2, 0, 0, b, 0, c) = (pi / 2, c, 0, b, 0, arcosh (cosh b * cosh c))"
  using assms by (simp add: rightAngleStep_def deg90 hyperbolicPythagorean_def)






















section \<open>Well-formed inputs determine a valid triangle\<close>




























end
